theory Spec2Isabelle
  imports Main
begin

section \<open>Data model of the provider configuration (src/pulsar/provider.go)\<close>

text \<open>
  \<open>common.APIVersion\<close> of the pulsarctl library: the provider only ever uses the three
  constants \<open>common.V1\<close>, \<open>common.V2\<close> and \<open>common.V3\<close>.
\<close>

datatype APIVersion = V1 | V2 | V3

text \<open>
  \<open>common.Config\<close>, restricted to the five fields the composite literal at
  provider.go:110-116 sets; every other field of the library's struct keeps its zero
  value in all configurations the provider builds.
\<close>

record Config =
  WebServiceURL :: string
  Token :: string
  PulsarAPIVersion :: APIVersion
  TLSTrustCertsFilePath :: string
  TLSAllowInsecureConnection :: bool

text \<open>
  Go \<open>error\<close> values. \<open>Cause m\<close> is an error made outside the provider (by
  \<open>url.Parse\<close> or \<open>pulsar.New\<close>), identified by its message;
  \<open>Errorf p e\<close> is \<open>fmt.Errorf(p + "%w", e)\<close>: a new error whose message is
  \<open>p\<close> followed by the message of \<open>e\<close> and whose \<open>Unwrap\<close> is \<open>e\<close>.
\<close>

datatype error = Cause string | Errorf string error

fun Error_msg :: "error \<Rightarrow> string" where
  "Error_msg (Cause m) = m"
| "Error_msg (Errorf p e) = p @ Error_msg e"

fun Unwrap :: "error \<Rightarrow> error option" where
  "Unwrap (Cause m) = None"
| "Unwrap (Errorf p e) = Some e"

text \<open>
  \<open>*schema.ResourceData\<close> as the provider reads it: the value of
  \<open>d.Get(key).(T)\<close> for each of the five keys of the provider schema
  (provider.go:35-67). The schema fixes the type of every key, so the type assertions
  cannot fail.
\<close>

record ResourceData =
  web_service_url :: string
  token :: string
  api_version :: string
  tls_trust_certs_file_path :: string
  tls_allow_insecure_connection :: bool

text \<open>
  \<open>diag.Diagnostics\<close>: \<open>diag.FromErr(err)\<close> is the one-element list holding an
  error-severity diagnostic whose summary is the message of \<open>err\<close>; the model keeps the
  error value. \<open>nil\<close> is the empty list.
\<close>

type_synonym Diagnostics = "error list"

definition FromErr :: "error \<Rightarrow> Diagnostics" where
  "FromErr err = [err]"

section \<open>providerConfigure\<close>

text \<open>
  The \<open>for\<close> loop of provider.go:109-123 over the versions still to visit. \<open>New\<close> is
  \<open>pulsar.New\<close> of the pulsarctl library, a parameter: for a configuration it gives the
  client built or the error. \<open>meta\<close> is the Go map under construction. \<open>calls\<close> is the
  record of the configurations \<open>pulsar.New\<close> has been invoked with so far, oldest first:
  every invocation appends to it, whether it succeeds or not.
\<close>

fun providerConfigure_loop ::
  "(Config \<Rightarrow> error + 'c) \<Rightarrow> string \<Rightarrow> string \<Rightarrow> string \<Rightarrow> bool \<Rightarrow>
   APIVersion list \<Rightarrow> (APIVersion \<rightharpoonup> 'c) \<Rightarrow> Config list \<Rightarrow>
   (error + (APIVersion \<rightharpoonup> 'c)) \<times> Config list" where
  "providerConfigure_loop New clusterURL tok certs insecure [] meta calls = (Inr meta, calls)"
| "providerConfigure_loop New clusterURL tok certs insecure (version # rest) meta calls =
     (let config = \<lparr>WebServiceURL = clusterURL,
                    Token = tok,
                    PulsarAPIVersion = version,
                    TLSTrustCertsFilePath = certs,
                    TLSAllowInsecureConnection = insecure\<rparr>
      in case New config of
           Inl err \<Rightarrow> (Inl (Errorf ''failed to create pulsar client: '' err), calls @ [config])
         | Inr client \<Rightarrow>
             providerConfigure_loop New clusterURL tok certs insecure rest
               (meta(version \<mapsto> client)) (calls @ [config]))"

text \<open>
  \<open>providerConfigure\<close> (provider.go:99-125). The Go result \<open>(interface{}, error)\<close> is
  \<open>(nil, err)\<close> or \<open>(meta, nil)\<close>, a sum here. \<open>tfVersion\<close> is assigned to the blank
  identifier. The line written by \<open>log.Printf\<close> is not modelled.
\<close>

definition providerConfigure ::
  "(Config \<Rightarrow> error + 'c) \<Rightarrow> ResourceData \<Rightarrow> string \<Rightarrow> Config list \<Rightarrow>
   (error + (APIVersion \<rightharpoonup> 'c)) \<times> Config list" where
  "providerConfigure New d tfVersion calls =
     (let clusterURL = web_service_url d;
          tok = token d;
          certs = tls_trust_certs_file_path d;
          insecure = tls_allow_insecure_connection d
      in providerConfigure_loop New clusterURL tok certs insecure [V1, V2, V3] Map.empty calls)"

section \<open>validatePulsarConfig and the configure callback\<close>

text \<open>
  \<open>validatePulsarConfig\<close> (provider.go:127-135). \<open>Parse\<close> is \<open>url.Parse\<close> of the Go
  standard library, a parameter: \<open>None\<close> when the string parses, the error otherwise.
  The result is Go's \<open>error\<close>: \<open>None\<close> is \<open>nil\<close>.
\<close>

definition validatePulsarConfig :: "(string \<Rightarrow> error option) \<Rightarrow> ResourceData \<Rightarrow> error option" where
  "validatePulsarConfig Parse d =
     (let webServiceURL = web_service_url d
      in case Parse webServiceURL of
           Some err \<Rightarrow> Some (Errorf ''ERROR_PULSAR_CONFIG_INVALID_WEB_SERVICE_URL: '' err)
         | None \<Rightarrow> None)"

text \<open>
  The closure assigned to \<open>provider.ConfigureContextFunc\<close> (provider.go:77-94).
  \<open>TerraformVersion\<close> is the field \<open>provider.TerraformVersion\<close>. The Go result
  \<open>(interface{}, diag.Diagnostics)\<close> is a pair whose first component is \<open>None\<close> for
  \<open>nil\<close>.
\<close>

definition ConfigureContextFunc ::
  "(string \<Rightarrow> error option) \<Rightarrow> (Config \<Rightarrow> error + 'c) \<Rightarrow> string \<Rightarrow> ResourceData \<Rightarrow>
   Config list \<Rightarrow> ((APIVersion \<rightharpoonup> 'c) option \<times> Diagnostics) \<times> Config list" where
  "ConfigureContextFunc Parse New TerraformVersion d calls =
     (let tfVersion = (if TerraformVersion = '''' then ''0.11+compatible'' else TerraformVersion)
      in case validatePulsarConfig Parse d of
           Some err \<Rightarrow> ((None, FromErr err), calls)
         | None \<Rightarrow>
             (case providerConfigure New d tfVersion calls of
                (Inl err, calls') \<Rightarrow> ((None, FromErr err), calls')
              | (Inr output, calls') \<Rightarrow> ((Some output, []), calls')))"

section \<open>How the resource data gets its values (provider schema, provider.go:35-67)\<close>

text \<open>
  A schema entry's default as the provider declares it: none, a constant
  (\<open>Default: v\<close>), or \<open>DefaultFunc: schema.EnvDefaultFunc(k, dv)\<close>. The SDK's
  \<open>EnvDefaultFunc(k, dv)\<close> returns the value of the environment variable \<open>k\<close> when it
  is not the empty string and \<open>dv\<close> otherwise (\<open>None\<close> for \<open>nil\<close>).
\<close>

datatype 'a SchemaDefault = NoDefault | Default 'a | EnvDefaultFunc string "'a option"

record 'a Schema =
  Required :: bool
  Optional :: bool
  SchemaDefault :: "'a SchemaDefault"
  Deprecated :: string

definition schema_web_service_url :: "string Schema" where
  "schema_web_service_url =
     \<lparr>Required = True, Optional = False,
      SchemaDefault = EnvDefaultFunc ''WEB_SERVICE_URL'' None, Deprecated = ''''\<rparr>"

definition schema_token :: "string Schema" where
  "schema_token =
     \<lparr>Required = False, Optional = True,
      SchemaDefault = EnvDefaultFunc ''PULSAR_AUTH_TOKEN'' None, Deprecated = ''''\<rparr>"

definition schema_api_version :: "string Schema" where
  "schema_api_version =
     \<lparr>Required = False, Optional = True, SchemaDefault = Default ''1'',
      Deprecated = ''The newer versions can use the right version for the right type of resource''\<rparr>"

definition schema_tls_trust_certs_file_path :: "string Schema" where
  "schema_tls_trust_certs_file_path =
     \<lparr>Required = False, Optional = True,
      SchemaDefault = EnvDefaultFunc ''TLS_TRUST_CERTS_FILE_PATH'' None, Deprecated = ''''\<rparr>"

definition schema_tls_allow_insecure_connection :: "bool Schema" where
  "schema_tls_allow_insecure_connection =
     \<lparr>Required = False, Optional = True,
      SchemaDefault = EnvDefaultFunc ''TLS_ALLOW_INSECURE_CONNECTION'' (Some False),
      Deprecated = ''''\<rparr>"

text \<open>
  The raw provider block: for each key the value the user wrote, or \<open>None\<close> when the
  key is not supplied.
\<close>

record RawConfig =
  raw_web_service_url :: "string option"
  raw_token :: "string option"
  raw_api_version :: "string option"
  raw_tls_trust_certs_file_path :: "string option"
  raw_tls_allow_insecure_connection :: "bool option"

text \<open>
  \<open>Schema.DefaultValue\<close> of the SDK. \<open>getenv\<close> is \<open>os.Getenv\<close>: the empty string
  for a variable that is not set. A default read from the environment is a string; for
  the boolean key the SDK converts it, and \<open>toBool\<close> is that conversion, a parameter
  (\<open>None\<close> when the string is no boolean, which the SDK reports as an error before the
  configure callback runs).
\<close>

fun DefaultString :: "(string \<Rightarrow> string) \<Rightarrow> string SchemaDefault \<Rightarrow> string option" where
  "DefaultString getenv NoDefault = None"
| "DefaultString getenv (Default v) = Some v"
| "DefaultString getenv (EnvDefaultFunc k dv) = (if getenv k \<noteq> '''' then Some (getenv k) else dv)"

fun DefaultBool ::
  "(string \<Rightarrow> bool option) \<Rightarrow> (string \<Rightarrow> string) \<Rightarrow> bool SchemaDefault \<Rightarrow> error + bool option" where
  "DefaultBool toBool getenv NoDefault = Inr None"
| "DefaultBool toBool getenv (Default v) = Inr (Some v)"
| "DefaultBool toBool getenv (EnvDefaultFunc k dv) =
     (if getenv k \<noteq> '''' then
        (case toBool (getenv k) of
           Some b \<Rightarrow> Inr (Some b)
         | None \<Rightarrow> Inl (Cause (k @ '': not a boolean'')))
      else Inr dv)"

text \<open>
  \<open>d.Get(key)\<close>: the supplied value; for a key not supplied the schema default; the
  zero value of the key's type when there is neither.
\<close>

definition GetString :: "(string \<Rightarrow> string) \<Rightarrow> string Schema \<Rightarrow> string option \<Rightarrow> string" where
  "GetString getenv s supplied =
     (case supplied of
        Some v \<Rightarrow> v
      | None \<Rightarrow> (case DefaultString getenv (SchemaDefault s) of Some v \<Rightarrow> v | None \<Rightarrow> ''''))"

definition GetBool ::
  "(string \<Rightarrow> bool option) \<Rightarrow> (string \<Rightarrow> string) \<Rightarrow> bool Schema \<Rightarrow> bool option \<Rightarrow> error + bool" where
  "GetBool toBool getenv s supplied =
     (case supplied of
        Some v \<Rightarrow> Inr v
      | None \<Rightarrow>
          (case DefaultBool toBool getenv (SchemaDefault s) of
             Inl err \<Rightarrow> Inl err
           | Inr (Some v) \<Rightarrow> Inr v
           | Inr None \<Rightarrow> Inr False))"

text \<open>
  The resource data handed to the configure callback for a raw provider block in an
  environment. The SDK's check that required keys are present is not part of this
  model.
\<close>

definition resourceData ::
  "(string \<Rightarrow> bool option) \<Rightarrow> (string \<Rightarrow> string) \<Rightarrow> RawConfig \<Rightarrow> error + ResourceData" where
  "resourceData toBool getenv raw =
     (case GetBool toBool getenv schema_tls_allow_insecure_connection
             (raw_tls_allow_insecure_connection raw) of
        Inl err \<Rightarrow> Inl err
      | Inr insecure \<Rightarrow>
          Inr \<lparr>web_service_url = GetString getenv schema_web_service_url (raw_web_service_url raw),
               token = GetString getenv schema_token (raw_token raw),
               api_version = GetString getenv schema_api_version (raw_api_version raw),
               tls_trust_certs_file_path =
                 GetString getenv schema_tls_trust_certs_file_path (raw_tls_trust_certs_file_path raw),
               tls_allow_insecure_connection = insecure\<rparr>)"

section \<open>url.Parse\<close>

text \<open>
  \<open>url.Parse\<close> belongs to Go's standard library (net/url), not to the provider. The
  definitions below follow the library's functions of the same names and keep what
  decides whether \<open>Parse\<close> returns an error: the parsed \<open>URL\<close> value is dropped, since
  \<open>validatePulsarConfig\<close> discards it. Go strings are byte sequences, as \<open>string\<close> is.
  \<open>Parse\<close> calls \<open>parse\<close> with \<open>viaRequest = false\<close>, and the branches for
  \<open>viaRequest\<close> are left out. The further checks of a bracketed IP literal that recent
  Go releases make in \<open>parseHost\<close> are not included; they concern hosts in brackets
  only.
\<close>

datatype url_reason =
    InvalidControlCharacter
  | MissingProtocolScheme
  | FirstPathSegmentColon
  | MissingBracket
  | InvalidPort string
  | InvalidUserinfo
  | EscapeError string
  | InvalidHostError string

text \<open>The reason \<open>Parse\<close> gives, as an error value; the operand is not quoted here.\<close>

fun url_error :: "url_reason \<Rightarrow> error" where
  "url_error InvalidControlCharacter = Cause ''net/url: invalid control character in URL''"
| "url_error MissingProtocolScheme = Cause ''missing protocol scheme''"
| "url_error FirstPathSegmentColon = Cause ''first path segment in URL cannot contain colon''"
| "url_error MissingBracket = Cause (''missing '' @ [char_of (0x27::nat)] @ '']'' @ [char_of (0x27::nat)] @ '' in host'')"
| "url_error (InvalidPort p) = Cause (''invalid port '' @ p @ '' after host'')"
| "url_error InvalidUserinfo = Cause ''net/url: invalid userinfo''"
| "url_error (EscapeError s) = Cause (''invalid URL escape '' @ s)"
| "url_error (InvalidHostError s) = Cause (''invalid character '' @ s @ '' in host name'')"

definition byte :: "char \<Rightarrow> nat" where
  "byte c = of_char c"

definition isLetter :: "char \<Rightarrow> bool" where
  "isLetter c = (byte CHR ''a'' \<le> byte c \<and> byte c \<le> byte CHR ''z''
               \<or> byte CHR ''A'' \<le> byte c \<and> byte c \<le> byte CHR ''Z'')"

definition isDigit :: "char \<Rightarrow> bool" where
  "isDigit c = (byte CHR ''0'' \<le> byte c \<and> byte c \<le> byte CHR ''9'')"

definition stringContainsCTLByte :: "string \<Rightarrow> bool" where
  "stringContainsCTLByte s = list_ex (\<lambda>b. byte b < byte CHR '' '' \<or> byte b = 0x7f) s"

definition HasPrefix :: "string \<Rightarrow> string \<Rightarrow> bool" where
  "HasPrefix s p = (take (length p) s = p)"

definition Contains :: "string \<Rightarrow> char \<Rightarrow> bool" where
  "Contains s c = list_ex (\<lambda>b. b = c) s"

text \<open>\<open>strings.Cut\<close> at a one-byte separator: the parts before and after its first occurrence.\<close>

definition Cut :: "string \<Rightarrow> char \<Rightarrow> string \<times> string" where
  "Cut s sep = (takeWhile (\<lambda>b. b \<noteq> sep) s, drop 1 (dropWhile (\<lambda>b. b \<noteq> sep) s))"

text \<open>\<open>strings.Index\<close> and \<open>strings.LastIndex\<close>; \<open>None\<close> is the library's \<open>-1\<close>.\<close>

fun Index :: "string \<Rightarrow> string \<Rightarrow> nat option" where
  "Index [] sub = (if sub = [] then Some 0 else None)"
| "Index (b # bs) sub =
     (if take (length sub) (b # bs) = sub then Some 0 else map_option Suc (Index bs sub))"

fun LastIndex :: "string \<Rightarrow> char \<Rightarrow> nat option" where
  "LastIndex [] c = None"
| "LastIndex (b # bs) c =
     (case LastIndex bs c of
        Some i \<Rightarrow> Some (Suc i)
      | None \<Rightarrow> (if b = c then Some 0 else None))"

fun getScheme_loop :: "string \<Rightarrow> nat \<Rightarrow> string \<Rightarrow> url_reason + string \<times> string" where
  "getScheme_loop rawURL i [] = Inr ('''', rawURL)"
| "getScheme_loop rawURL i (c # cs) =
     (if isLetter c then getScheme_loop rawURL (Suc i) cs
      else if isDigit c \<or> c = CHR ''+'' \<or> c = CHR ''-'' \<or> c = CHR ''.'' then
        (if i = 0 then Inr ('''', rawURL) else getScheme_loop rawURL (Suc i) cs)
      else if c = CHR '':'' then
        (if i = 0 then Inl MissingProtocolScheme else Inr (take i rawURL, drop (Suc i) rawURL))
      else Inr ('''', rawURL))"

definition getScheme :: "string \<Rightarrow> url_reason + string \<times> string" where
  "getScheme rawURL = getScheme_loop rawURL 0 rawURL"

definition ishex :: "char \<Rightarrow> bool" where
  "ishex c = (isDigit c
            \<or> byte CHR ''a'' \<le> byte c \<and> byte c \<le> byte CHR ''f''
            \<or> byte CHR ''A'' \<le> byte c \<and> byte c \<le> byte CHR ''F'')"

definition unhex :: "char \<Rightarrow> nat" where
  "unhex c =
     (if isDigit c then byte c - byte CHR ''0''
      else if byte CHR ''a'' \<le> byte c \<and> byte c \<le> byte CHR ''f'' then byte c - byte CHR ''a'' + 10
      else if byte CHR ''A'' \<le> byte c \<and> byte c \<le> byte CHR ''F'' then byte c - byte CHR ''A'' + 10
      else 0)"

text \<open>\<open>shouldEscape(c, encodeHost)\<close>, the only mode \<open>Parse\<close> calls it with.\<close>

definition shouldEscape_host :: "char \<Rightarrow> bool" where
  "shouldEscape_host c =
     (if isLetter c \<or> isDigit c then False
      else if c \<in> set ''!$&()*+,;=:[]<>'' \<or> byte c = 0x27 \<or> byte c = 0x22 then False
      else if c \<in> set ''-_.~'' then False
      else True)"

datatype encoding = encodePath | encodeHost | encodeZone | encodeUserPassword | encodeFragment

text \<open>The error of \<open>unescape(s, mode)\<close>; the unescaped string is not computed.\<close>

fun unescape :: "string \<Rightarrow> encoding \<Rightarrow> url_reason option" where
  "unescape [] mode = None"
| "unescape (c # cs) mode =
     (if c = CHR ''%'' then
        (case cs of
           h1 # h2 # rest \<Rightarrow>
             if \<not> ishex h1 \<or> \<not> ishex h2 then Some (EscapeError [c, h1, h2])
             else if mode = encodeHost \<and> unhex h1 < 8 \<and> [c, h1, h2] \<noteq> ''%25'' then
               Some (EscapeError [c, h1, h2])
             else if mode = encodeZone \<and> [c, h1, h2] \<noteq> ''%25''
                     \<and> unhex h1 * 16 + unhex h2 \<noteq> byte CHR '' ''
                     \<and> shouldEscape_host (char_of (unhex h1 * 16 + unhex h2)) then
               Some (EscapeError [c, h1, h2])
             else unescape rest mode
         | _ \<Rightarrow> Some (EscapeError (c # cs)))
      else if c = CHR ''+'' then unescape cs mode
      else if (mode = encodeHost \<or> mode = encodeZone) \<and> byte c < 0x80 \<and> shouldEscape_host c then
        Some (InvalidHostError [c])
      else unescape cs mode)"

definition validOptionalPort :: "string \<Rightarrow> bool" where
  "validOptionalPort port =
     (case port of
        [] \<Rightarrow> True
      | p0 # ps \<Rightarrow> p0 = CHR '':'' \<and> list_all isDigit ps)"

definition validUserinfo :: "string \<Rightarrow> bool" where
  "validUserinfo s =
     list_all (\<lambda>r. isLetter r \<or> isDigit r \<or> r \<in> set ''-._:~!$&()*+,;=%@'' \<or> byte r = 0x27) s"

definition parseHost :: "string \<Rightarrow> url_reason option" where
  "parseHost host =
     (if HasPrefix host ''['' then
        (case LastIndex host CHR '']'' of
           None \<Rightarrow> Some MissingBracket
         | Some i \<Rightarrow>
             (let colonPort = drop (Suc i) host
              in if \<not> validOptionalPort colonPort then Some (InvalidPort colonPort)
                 else (case Index (take i host) ''%25'' of
                         Some zone \<Rightarrow>
                           (case unescape (take zone host) encodeHost of
                              Some err \<Rightarrow> Some err
                            | None \<Rightarrow>
                                (case unescape (drop zone (take i host)) encodeZone of
                                   Some err \<Rightarrow> Some err
                                 | None \<Rightarrow> unescape (drop i host) encodeHost))
                       | None \<Rightarrow> unescape host encodeHost)))
      else
        (case LastIndex host CHR '':'' of
           Some i \<Rightarrow>
             (let colonPort = drop i host
              in if \<not> validOptionalPort colonPort then Some (InvalidPort colonPort)
                 else unescape host encodeHost)
         | None \<Rightarrow> unescape host encodeHost))"

definition parseAuthority :: "string \<Rightarrow> url_reason option" where
  "parseAuthority authority =
     (let i = LastIndex authority CHR ''@''
      in case (case i of
                 None \<Rightarrow> parseHost authority
               | Some k \<Rightarrow> parseHost (drop (Suc k) authority)) of
           Some err \<Rightarrow> Some err
         | None \<Rightarrow>
             (case i of
                None \<Rightarrow> None
              | Some k \<Rightarrow>
                  (let userinfo = take k authority
                   in if \<not> validUserinfo userinfo then Some InvalidUserinfo
                      else if \<not> Contains userinfo CHR '':'' then unescape userinfo encodeUserPassword
                      else (case unescape (fst (Cut userinfo CHR '':'')) encodeUserPassword of
                              Some err \<Rightarrow> Some err
                            | None \<Rightarrow> unescape (snd (Cut userinfo CHR '':'')) encodeUserPassword))))"

text \<open>\<open>parse(rawURL, false)\<close>.\<close>

definition url_parse :: "string \<Rightarrow> url_reason option" where
  "url_parse rawURL =
     (if stringContainsCTLByte rawURL then Some InvalidControlCharacter
      else if rawURL = ''*'' then None
      else case getScheme rawURL of
             Inl err \<Rightarrow> Some err
           | Inr (scheme, afterScheme) \<Rightarrow>
               (let rest = fst (Cut afterScheme CHR ''?'')
                in if \<not> HasPrefix rest ''/'' \<and> scheme \<noteq> '''' then None
                   else if \<not> HasPrefix rest ''/'' \<and> Contains (fst (Cut rest CHR ''/'')) CHR '':'' then
                     Some FirstPathSegmentColon
                   else if (scheme \<noteq> '''' \<or> \<not> HasPrefix rest ''///'') \<and> HasPrefix rest ''//'' then
                     (let authority = drop 2 rest
                      in case Index authority ''/'' of
                           Some i \<Rightarrow>
                             (case parseAuthority (take i authority) of
                                Some err \<Rightarrow> Some err
                              | None \<Rightarrow> unescape (drop i authority) encodePath)
                         | None \<Rightarrow>
                             (case parseAuthority authority of
                                Some err \<Rightarrow> Some err
                              | None \<Rightarrow> unescape '''' encodePath))
                   else unescape rest encodePath))"

text \<open>
  \<open>url.Parse\<close>: the fragment is cut off at the first \<open>#\<close> and unescaped after the rest
  has parsed. The result is Go's \<open>error\<close>: \<open>None\<close> is \<open>nil\<close>.
\<close>

definition url_Parse :: "string \<Rightarrow> error option" where
  "url_Parse rawURL =
     (let u = fst (Cut rawURL CHR ''#''); frag = snd (Cut rawURL CHR ''#'')
      in case url_parse u of
           Some err \<Rightarrow> Some (url_error err)
         | None \<Rightarrow> (if frag = '''' then None else map_option url_error (unescape frag encodeFragment)))"

section \<open>Vocabulary of the statements\<close>

text \<open>
  The configuration a pass over the resource data \<open>d\<close> is to hand to \<open>pulsar.New\<close> for
  the version \<open>v\<close>: the four connection values of \<open>d\<close> and \<open>v\<close>.
\<close>

definition config_for :: "ResourceData \<Rightarrow> APIVersion \<Rightarrow> Config" where
  "config_for d v =
     \<lparr>WebServiceURL = web_service_url d,
      Token = token d,
      PulsarAPIVersion = v,
      TLSTrustCertsFilePath = tls_trust_certs_file_path d,
      TLSAllowInsecureConnection = tls_allow_insecure_connection d\<rparr>"

text \<open>
  The versions visited when \<open>fails\<close> tells which constructions fail: every version up to
  and including the first failing one.
\<close>

fun attempted :: "(APIVersion \<Rightarrow> bool) \<Rightarrow> APIVersion list \<Rightarrow> APIVersion list" where
  "attempted fails [] = []"
| "attempted fails (v # vs) = (if fails v then [v] else v # attempted fails vs)"

text \<open>The versions that come after \<open>v\<close> in the iteration order.\<close>

definition later_versions :: "APIVersion \<Rightarrow> APIVersion list" where
  "later_versions v = drop 1 (dropWhile (\<lambda>u. u \<noteq> v) [V1, V2, V3])"

text \<open>The configurations \<open>pulsar.New\<close> was invoked with during a pass that began at \<open>calls\<close>.\<close>

definition new_calls :: "Config list \<Rightarrow> 'a \<times> Config list \<Rightarrow> Config list" where
  "new_calls calls result = drop (length calls) (snd result)"

subsection \<open>Concrete inputs for the examples\<close>

definition example_d :: ResourceData where
  "example_d =
     \<lparr>web_service_url = ''https://pulsar.example.com:8080'', token = '''', api_version = ''1'',
      tls_trust_certs_file_path = '''', tls_allow_insecure_connection = False\<rparr>"

text \<open>A constructor that always succeeds; the client is identified with its configuration.\<close>

definition New_ok :: "Config \<Rightarrow> error + Config" where
  "New_ok config = Inr config"

text \<open>A constructor that fails for one version, with a cause that does not name it.\<close>

definition New_failing_at :: "APIVersion \<Rightarrow> Config \<Rightarrow> error + Config" where
  "New_failing_at v config =
     (if PulsarAPIVersion config = v then Inl (Cause ''connection refused'') else Inr config)"

text \<open>A parser that accepts exactly the absolute http and https URLs, for the examples.\<close>

definition Parse_http_only :: "string \<Rightarrow> error option" where
  "Parse_http_only s =
     (if take 7 s = ''http://'' \<or> take 8 s = ''https://'' then None
      else Some (Cause ''unsupported scheme''))"

text \<open>\<open>strconv.ParseBool\<close>, as the conversion of the examples.\<close>

definition ParseBool :: "string \<Rightarrow> bool option" where
  "ParseBool s =
     (if s \<in> set [''1'', ''t'', ''T'', ''TRUE'', ''true'', ''True''] then Some True
      else if s \<in> set [''0'', ''f'', ''F'', ''FALSE'', ''false'', ''False''] then Some False
      else None)"

text \<open>An environment that sets only \<open>PULSAR_AUTH_TOKEN\<close>, and the empty environment.\<close>

definition getenv_token :: "string \<Rightarrow> string" where
  "getenv_token k = (if k = ''PULSAR_AUTH_TOKEN'' then ''s3cr3t'' else '''')"

definition getenv_empty :: "string \<Rightarrow> string" where
  "getenv_empty k = ''''"

text \<open>A provider block that supplies the endpoint and nothing else.\<close>

definition raw_endpoint_only :: RawConfig where
  "raw_endpoint_only =
     \<lparr>raw_web_service_url = Some ''https://pulsar.example.com:8080'', raw_token = None,
      raw_api_version = None, raw_tls_trust_certs_file_path = None,
      raw_tls_allow_insecure_connection = None\<rparr>"

section \<open>The loop of providerConfigure\<close>

lemma loop_calls:
  assumes mk: "\<And>v. mk v = \<lparr>WebServiceURL = u, Token = t, PulsarAPIVersion = v,
                          TLSTrustCertsFilePath = c, TLSAllowInsecureConnection = i\<rparr>"
  shows "snd (providerConfigure_loop New u t c i vs meta calls) =
           calls @ map mk (attempted (\<lambda>v. isl (New (mk v))) vs)"
proof (induction vs arbitrary: meta calls)
  case Nil
  show ?case by simp
next
  case (Cons v vs)
  show ?case
    by (cases "New (mk v)") (simp_all add: Cons.IH mk [symmetric] Let_def)
qed

lemma loop_result:
  assumes mk: "\<And>v. mk v = \<lparr>WebServiceURL = u, Token = t, PulsarAPIVersion = v,
                          TLSTrustCertsFilePath = c, TLSAllowInsecureConnection = i\<rparr>"
  shows "fst (providerConfigure_loop New u t c i vs meta calls) =
     (case find (\<lambda>v. isl (New (mk v))) vs of
        Some f \<Rightarrow> Inl (Errorf ''failed to create pulsar client: '' (projl (New (mk f))))
      | None \<Rightarrow> Inr (\<lambda>v. if v \<in> set vs then Some (projr (New (mk v))) else meta v))"
proof (induction vs arbitrary: meta calls)
  case Nil
  show ?case by simp
next
  case (Cons v vs)
  show ?case
  proof (cases "New (mk v)")
    case (Inl e)
    then show ?thesis by (simp add: mk [symmetric])
  next
    case (Inr cl)
    then show ?thesis
      by (auto simp add: Cons.IH mk [symmetric] fun_eq_iff split: option.splits)
  qed
qed

lemma providerConfigure_calls:
  "snd (providerConfigure New d tfVersion calls) =
     calls @ map (config_for d) (attempted (\<lambda>v. isl (New (config_for d v))) [V1, V2, V3])"
  unfolding providerConfigure_def Let_def
  by (rule loop_calls) (simp add: config_for_def)

lemma providerConfigure_result:
  "fst (providerConfigure New d tfVersion calls) =
     (case find (\<lambda>v. isl (New (config_for d v))) [V1, V2, V3] of
        Some f \<Rightarrow> Inl (Errorf ''failed to create pulsar client: '' (projl (New (config_for d f))))
      | None \<Rightarrow> Inr (\<lambda>v. if v \<in> set [V1, V2, V3] then Some (projr (New (config_for d v))) else None))"
  unfolding providerConfigure_def Let_def
  by (rule loop_result) (simp add: config_for_def)

lemma all_versions: "v \<in> set [V1, V2, V3]"
  by (cases v) simp_all

lemma providerConfigure_success:
  assumes "fst (providerConfigure New d tfVersion calls) = Inr meta"
  shows "\<forall>v. \<exists>client. New (config_for d v) = Inr client \<and> meta v = Some client"
    and "snd (providerConfigure New d tfVersion calls) = calls @ map (config_for d) [V1, V2, V3]"
proof -
  have nofail: "find (\<lambda>v. isl (New (config_for d v))) [V1, V2, V3] = None"
    using assms unfolding providerConfigure_result
    by (cases "find (\<lambda>v. isl (New (config_for d v))) [V1, V2, V3]") (simp_all del: find.simps)
  then have ok: "\<not> isl (New (config_for d v))" for v
    using all_versions [of v] unfolding find_None_iff by blast
  have meta: "meta = (\<lambda>v. if v \<in> set [V1, V2, V3] then Some (projr (New (config_for d v))) else None)"
    using assms unfolding providerConfigure_result nofail by simp
  show "\<forall>v. \<exists>client. New (config_for d v) = Inr client \<and> meta v = Some client"
  proof
    fix v
    obtain client where "New (config_for d v) = Inr client"
      using ok [of v] by (cases "New (config_for d v)") simp_all
    then show "\<exists>client. New (config_for d v) = Inr client \<and> meta v = Some client"
      using all_versions [of v] by (simp add: meta)
  qed
  show "snd (providerConfigure New d tfVersion calls) = calls @ map (config_for d) [V1, V2, V3]"
    unfolding providerConfigure_calls using ok by simp
qed


lemma providerConfigure_failure:
  assumes "New (config_for d v) = Inl cause"
  shows "\<exists>f e. New (config_for d f) = Inl e
           \<and> list_all (\<lambda>u. \<not> isl (New (config_for d u))) (takeWhile (\<lambda>u. u \<noteq> f) [V1, V2, V3])
           \<and> v \<notin> set (takeWhile (\<lambda>u. u \<noteq> f) [V1, V2, V3])
           \<and> providerConfigure New d tfVersion calls =
               (Inl (Errorf ''failed to create pulsar client: '' e),
                calls @ map (config_for d) (takeWhile (\<lambda>u. u \<noteq> f) [V1, V2, V3] @ [f]))"
proof -
  let ?r = "providerConfigure New d tfVersion calls"
  have r: "?r = (fst ?r, snd ?r)" by simp
  consider (one) e where "New (config_for d V1) = Inl e"
    | (two) c1 e where "New (config_for d V1) = Inr c1" "New (config_for d V2) = Inl e"
    | (three) c1 c2 e where "New (config_for d V1) = Inr c1" "New (config_for d V2) = Inr c2"
        "New (config_for d V3) = Inl e"
    using assms
    by (cases v; cases "New (config_for d V1)"; cases "New (config_for d V2)";
        cases "New (config_for d V3)") auto
  then show ?thesis
  proof cases
    case one
    have "?r = (Inl (Errorf ''failed to create pulsar client: '' e),
                calls @ map (config_for d) (takeWhile (\<lambda>u. u \<noteq> V1) [V1, V2, V3] @ [V1]))"
      by (subst r) (simp add: providerConfigure_result providerConfigure_calls one)
    with one show ?thesis by (intro exI [of _ V1] exI [of _ e]) simp
  next
    case two
    have "?r = (Inl (Errorf ''failed to create pulsar client: '' e),
                calls @ map (config_for d) (takeWhile (\<lambda>u. u \<noteq> V2) [V1, V2, V3] @ [V2]))"
      by (subst r) (simp add: providerConfigure_result providerConfigure_calls two)
    moreover have "v \<noteq> V1" using assms two by auto
    ultimately show ?thesis using two by (intro exI [of _ V2] exI [of _ e]) simp
  next
    case three
    have "?r = (Inl (Errorf ''failed to create pulsar client: '' e),
                calls @ map (config_for d) (takeWhile (\<lambda>u. u \<noteq> V3) [V1, V2, V3] @ [V3]))"
      by (subst r) (simp add: providerConfigure_result providerConfigure_calls three)
    moreover have "v \<noteq> V1" "v \<noteq> V2" using assms three by auto
    ultimately show ?thesis using three by (intro exI [of _ V3] exI [of _ e]) simp
  qed
qed

text \<open>
  Claim C1. Whenever \<open>providerConfigure\<close> succeeds, the registry it returns has exactly
  the three keys \<open>V1\<close>, \<open>V2\<close> and \<open>V3\<close>; every version is bound to the client
  \<open>pulsar.New\<close> returned for that version's own configuration, so lookup is total; the
  three configurations are pairwise different; and when the constructor binds a client to
  the version of the configuration it is built from, the three clients are pairwise
  different.
\<close>
theorem providerConfigure_registry_complete:
  assumes "providerConfigure New d tfVersion calls = (Inr meta, calls')"
  shows "dom meta = {V1, V2, V3} \<and> card (dom meta) = 3
       \<and> (\<forall>v. \<exists>client. meta v = Some client \<and> New (config_for d v) = Inr client)
       \<and> (\<forall>v w. v \<noteq> w \<longrightarrow> config_for d v \<noteq> config_for d w)
       \<and> (\<forall>clientVersion.
            (\<forall>config client. New config = Inr client \<longrightarrow> clientVersion client = PulsarAPIVersion config)
            \<longrightarrow> (\<forall>v w. v \<noteq> w \<longrightarrow> meta v \<noteq> meta w))"
proof -
  have fst: "fst (providerConfigure New d tfVersion calls) = Inr meta"
    using assms by simp
  note bound = providerConfigure_success(1) [OF fst]
  have dom: "dom meta = {V1, V2, V3}"
  proof
    show "dom meta \<subseteq> {V1, V2, V3}" using all_versions by auto
    show "{V1, V2, V3} \<subseteq> dom meta" using bound by (auto simp: dom_def)
  qed
  have card: "card (dom meta) = 3" unfolding dom by simp
  have cfg: "\<forall>v w. v \<noteq> w \<longrightarrow> config_for d v \<noteq> config_for d w"
    by (simp add: config_for_def)
  have distinct: "\<forall>clientVersion.
            (\<forall>config client. New config = Inr client \<longrightarrow> clientVersion client = PulsarAPIVersion config)
            \<longrightarrow> (\<forall>v w. v \<noteq> w \<longrightarrow> meta v \<noteq> meta w)"
  proof (intro allI impI)
    fix clientVersion :: "'a \<Rightarrow> APIVersion" and v w :: APIVersion
    assume ver: "\<forall>config client. New config = Inr client \<longrightarrow> clientVersion client = PulsarAPIVersion config"
      and neq: "v \<noteq> w"
    obtain cv where cv: "meta v = Some cv" "New (config_for d v) = Inr cv" using bound by blast
    obtain cw where cw: "meta w = Some cw" "New (config_for d w) = Inr cw" using bound by blast
    have "clientVersion cv = v" using ver cv(2) by (simp add: config_for_def)
    moreover have "clientVersion cw = w" using ver cw(2) by (simp add: config_for_def)
    ultimately have "cv \<noteq> cw" using neq by auto
    then show "meta v \<noteq> meta w" using cv(1) cw(1) by simp
  qed
  from dom card bound cfg distinct show ?thesis by blast
qed

text \<open>
  The pass over the example configuration with a constructor that always succeeds.
\<close>
theorem providerConfigure_registry_complete_witness:
  "providerConfigure New_ok example_d ''1.5.0'' [] =
     (Inr [V1 \<mapsto> config_for example_d V1, V2 \<mapsto> config_for example_d V2,
           V3 \<mapsto> config_for example_d V3],
      [config_for example_d V1, config_for example_d V2, config_for example_d V3])
   \<and> card (dom [V1 \<mapsto> config_for example_d V1, V2 \<mapsto> config_for example_d V2,
                 V3 \<mapsto> config_for example_d V3]) = 3
   \<and> [V1 \<mapsto> config_for example_d V1, V2 \<mapsto> config_for example_d V2,
        V3 \<mapsto> config_for example_d V3] V2 \<noteq>
      [V1 \<mapsto> config_for example_d V1, V2 \<mapsto> config_for example_d V2,
        V3 \<mapsto> config_for example_d V3] V3"
proof -
  let ?meta = "[V1 \<mapsto> config_for example_d V1, V2 \<mapsto> config_for example_d V2,
                V3 \<mapsto> config_for example_d V3]"
  have run: "providerConfigure New_ok example_d ''1.5.0'' [] =
     (Inr ?meta, [config_for example_d V1, config_for example_d V2, config_for example_d V3])"
    by (simp add: providerConfigure_def New_ok_def config_for_def Let_def)
  have ver: "\<forall>config client. New_ok config = Inr client \<longrightarrow> PulsarAPIVersion client = PulsarAPIVersion config"
    by (simp add: New_ok_def)
  note complete = providerConfigure_registry_complete [where New = New_ok and d = example_d
      and tfVersion = "''1.5.0''" and calls = "[]", OF run]
  have card: "card (dom ?meta) = 3"
    by (rule complete [THEN conjunct2, THEN conjunct1])
  have "\<forall>v w. v \<noteq> w \<longrightarrow> ?meta v \<noteq> ?meta w"
    by (rule complete [THEN conjunct2, THEN conjunct2, THEN conjunct2, THEN conjunct2,
          THEN spec, THEN mp, OF ver])
  then have "V2 \<noteq> V3 \<longrightarrow> ?meta V2 \<noteq> ?meta V3"
    by (elim allE)
  then have distinct: "?meta V2 \<noteq> ?meta V3"
    by (elim impE) simp_all
  from run card distinct show ?thesis
    by (intro conjI)
qed


section \<open>Failure of a construction and of validation\<close>

lemma ConfigureContextFunc_valid:
  assumes "Parse (web_service_url d) = None"
  shows "ConfigureContextFunc Parse New TerraformVersion d calls =
           (case providerConfigure New d tfVersion calls of
              (Inl err, calls') \<Rightarrow> ((None, FromErr err), calls')
            | (Inr output, calls') \<Rightarrow> ((Some output, []), calls'))"
  using assms
  by (simp add: ConfigureContextFunc_def validatePulsarConfig_def providerConfigure_def)

lemma ConfigureContextFunc_invalid:
  assumes "Parse (web_service_url d) = Some err"
  shows "ConfigureContextFunc Parse New TerraformVersion d calls =
           ((None, FromErr (Errorf ''ERROR_PULSAR_CONFIG_INVALID_WEB_SERVICE_URL: '' err)), calls)"
  using assms by (simp add: ConfigureContextFunc_def validatePulsarConfig_def)

lemma later_versions_not_attempted:
  assumes "v \<notin> set (takeWhile (\<lambda>u. u \<noteq> f) [V1, V2, V3])" and "u \<in> set (later_versions v)"
  shows "u \<notin> set (takeWhile (\<lambda>u. u \<noteq> f) [V1, V2, V3] @ [f])"
  using assms by (cases v; cases f; cases u) (simp_all add: later_versions_def)

text \<open>
  Claim C2. When the construction for some version \<open>v\<close> fails, \<open>providerConfigure\<close>
  returns an error, the configure callback returns no registry (its first result is
  \<open>nil\<close>) together with a diagnostic, and no configuration of a version after \<open>v\<close> in
  the order \<open>V1\<close>, \<open>V2\<close>, \<open>V3\<close> is handed to \<open>pulsar.New\<close> during the pass.
\<close>
theorem providerConfigure_fail_fast:
  assumes "New (config_for d v) = Inl cause"
  shows "(\<exists>err. fst (providerConfigure New d tfVersion calls) = Inl err)
       \<and> fst (fst (ConfigureContextFunc Parse New TerraformVersion d calls)) = None
       \<and> snd (fst (ConfigureContextFunc Parse New TerraformVersion d calls)) \<noteq> []
       \<and> (\<forall>u \<in> set (later_versions v).
            \<forall>config \<in> set (new_calls calls (providerConfigure New d tfVersion calls)).
              PulsarAPIVersion config \<noteq> u)
       \<and> (\<forall>u \<in> set (later_versions v).
            \<forall>config \<in> set (new_calls calls (ConfigureContextFunc Parse New TerraformVersion d calls)).
              PulsarAPIVersion config \<noteq> u)"
proof -
  obtain f e where f: "New (config_for d f) = Inl e"
      "v \<notin> set (takeWhile (\<lambda>u. u \<noteq> f) [V1, V2, V3])"
    and run: "providerConfigure New d tfVersion calls =
               (Inl (Errorf ''failed to create pulsar client: '' e),
                calls @ map (config_for d) (takeWhile (\<lambda>u. u \<noteq> f) [V1, V2, V3] @ [f]))"
    using providerConfigure_failure [where New = New and d = d and v = v
        and tfVersion = tfVersion and calls = calls, OF assms]
    by blast
  have new: "new_calls calls (providerConfigure New d tfVersion calls) =
               map (config_for d) (takeWhile (\<lambda>u. u \<noteq> f) [V1, V2, V3] @ [f])"
    by (simp add: new_calls_def run)
  have later: "\<forall>u \<in> set (later_versions v).
                 \<forall>config \<in> set (new_calls calls (providerConfigure New d tfVersion calls)).
                   PulsarAPIVersion config \<noteq> u"
  proof (intro ballI)
    fix u config
    assume u: "u \<in> set (later_versions v)"
      and "config \<in> set (new_calls calls (providerConfigure New d tfVersion calls))"
    then obtain w where w: "w \<in> set (takeWhile (\<lambda>u. u \<noteq> f) [V1, V2, V3] @ [f])"
      and "config = config_for d w"
      unfolding new by auto
    then have "PulsarAPIVersion config = w" by (simp add: config_for_def)
    moreover have "u \<noteq> w" using later_versions_not_attempted [OF f(2) u] w by auto
    ultimately show "PulsarAPIVersion config \<noteq> u" by simp
  qed
  show ?thesis
  proof (cases "Parse (web_service_url d)")
    case None
    have ccf: "ConfigureContextFunc Parse New TerraformVersion d calls =
                 ((None, FromErr (Errorf ''failed to create pulsar client: '' e)),
                  snd (providerConfigure New d tfVersion calls))"
      by (simp add: ConfigureContextFunc_valid [where Parse = Parse and d = d
            and tfVersion = tfVersion, OF None] run)
    have "new_calls calls (ConfigureContextFunc Parse New TerraformVersion d calls) =
            new_calls calls (providerConfigure New d tfVersion calls)"
      by (simp add: ccf new_calls_def)
    with later show ?thesis by (simp add: ccf run FromErr_def)
  next
    case (Some err)
    have "new_calls calls (ConfigureContextFunc Parse New TerraformVersion d calls) = []"
      by (simp add: ConfigureContextFunc_invalid [where Parse = Parse and d = d, OF Some] new_calls_def)
    with later show ?thesis
      by (simp add: ConfigureContextFunc_invalid [where Parse = Parse and d = d, OF Some] run FromErr_def)
  qed
qed

text \<open>
  A constructor failing for \<open>V2\<close>: \<open>V1\<close> and \<open>V2\<close> are attempted, \<open>V3\<close> is not.
\<close>
theorem providerConfigure_fail_fast_witness:
  "New_failing_at V2 (config_for example_d V2) = Inl (Cause ''connection refused'')
   \<and> providerConfigure (New_failing_at V2) example_d ''1.5.0'' [] =
       (Inl (Errorf ''failed to create pulsar client: '' (Cause ''connection refused'')),
        [config_for example_d V1, config_for example_d V2])
   \<and> fst (fst (ConfigureContextFunc Parse_http_only (New_failing_at V2) ''1.5.0'' example_d [])) = None
   \<and> later_versions V2 = [V3]
   \<and> list_all (\<lambda>config. PulsarAPIVersion config \<noteq> V3)
        (new_calls [] (providerConfigure (New_failing_at V2) example_d ''1.5.0'' []))"
proof -
  have fails: "New_failing_at V2 (config_for example_d V2) = Inl (Cause ''connection refused'')"
    by (simp add: New_failing_at_def config_for_def)
  have run: "providerConfigure (New_failing_at V2) example_d ''1.5.0'' [] =
       (Inl (Errorf ''failed to create pulsar client: '' (Cause ''connection refused'')),
        [config_for example_d V1, config_for example_d V2])"
    by (simp add: providerConfigure_def New_failing_at_def config_for_def Let_def)
  have later: "later_versions V2 = [V3]"
    by (simp add: later_versions_def)
  from providerConfigure_fail_fast [where New = "New_failing_at V2" and d = example_d and v = V2
      and tfVersion = "''1.5.0''" and calls = "[]" and Parse = Parse_http_only
      and TerraformVersion = "''1.5.0''", OF fails]
  have "fst (fst (ConfigureContextFunc Parse_http_only (New_failing_at V2) ''1.5.0'' example_d [])) = None"
    and "list_all (\<lambda>config. PulsarAPIVersion config \<noteq> V3)
          (new_calls [] (providerConfigure (New_failing_at V2) example_d ''1.5.0'' []))"
    unfolding later list_all_iff by simp_all
  with fails run later show ?thesis by simp
qed

text \<open>
  Claim C3. When \<open>url.Parse\<close> rejects the endpoint, validation fails with the error
  \<open>ERROR_PULSAR_CONFIG_INVALID_WEB_SERVICE_URL\<close> wrapping the parse error, the configure
  callback returns exactly that error and no registry, and the record of constructor
  invocations is unchanged: no client construction is attempted.
\<close>
theorem invalid_endpoint_is_hard_gate:
  assumes "Parse (web_service_url d) = Some err"
  shows "validatePulsarConfig Parse d =
           Some (Errorf ''ERROR_PULSAR_CONFIG_INVALID_WEB_SERVICE_URL: '' err)
       \<and> ConfigureContextFunc Parse New TerraformVersion d calls =
           ((None, FromErr (Errorf ''ERROR_PULSAR_CONFIG_INVALID_WEB_SERVICE_URL: '' err)), calls)
       \<and> new_calls calls (ConfigureContextFunc Parse New TerraformVersion d calls) = []"
  using assms
  by (simp add: ConfigureContextFunc_invalid validatePulsarConfig_def new_calls_def)

text \<open>
  An endpoint without a scheme, under a parser that wants one.
\<close>
theorem invalid_endpoint_is_hard_gate_witness:
  "Parse_http_only (web_service_url (example_d\<lparr>web_service_url := ''pulsar.example.com''\<rparr>)) =
     Some (Cause ''unsupported scheme'')
   \<and> ConfigureContextFunc Parse_http_only New_ok ''1.5.0''
       (example_d\<lparr>web_service_url := ''pulsar.example.com''\<rparr>) [] =
       ((None, [Errorf ''ERROR_PULSAR_CONFIG_INVALID_WEB_SERVICE_URL: '' (Cause ''unsupported scheme'')]), [])"
proof -
  have bad: "Parse_http_only (web_service_url (example_d\<lparr>web_service_url := ''pulsar.example.com''\<rparr>)) =
     Some (Cause ''unsupported scheme'')"
    by (simp add: Parse_http_only_def)
  from invalid_endpoint_is_hard_gate [where Parse = Parse_http_only
      and d = "example_d\<lparr>web_service_url := ''pulsar.example.com''\<rparr>"
      and New = New_ok and TerraformVersion = "''1.5.0''" and calls = "[]", OF bad] bad
  show ?thesis by (simp add: FromErr_def)
qed


section \<open>What the constructor is called with\<close>

lemma attempted_take:
  "\<exists>n. n \<le> length vs \<and> (vs \<noteq> [] \<longrightarrow> 1 \<le> n) \<and> attempted fails vs = take n vs
       \<and> (list_ex fails vs \<or> n = length vs)"
proof (induction vs)
  case Nil
  show ?case by simp
next
  case (Cons v vs)
  show ?case
  proof (cases "fails v")
    case True
    then show ?thesis by (intro exI [of _ 1]) simp
  next
    case False
    from Cons obtain n where n: "n \<le> length vs" "attempted fails vs = take n vs"
      "list_ex fails vs \<or> n = length vs" by blast
    with False show ?thesis by (intro exI [of _ "Suc n"]) auto
  qed
qed

text \<open>
  Claim C5. The configurations handed to \<open>pulsar.New\<close> during one pass are those of
  \<open>V1\<close>, \<open>V2\<close>, \<open>V3\<close> in this order: the first \<open>n\<close> of them, where \<open>n\<close> is at
  least one and is three unless the pass ends in an error. The configuration of a
  version carries the endpoint, token, trust path and insecure flag of the resource
  data unchanged, and the configurations of two versions differ in the version field
  only.
\<close>

theorem constructions_in_order_with_same_connection:
  "(\<exists>n. 1 \<le> n \<and> n \<le> 3
        \<and> new_calls calls (providerConfigure New d tfVersion calls) =
            map (config_for d) (take n [V1, V2, V3])
        \<and> map PulsarAPIVersion (new_calls calls (providerConfigure New d tfVersion calls)) =
            take n [V1, V2, V3]
        \<and> (isl (fst (providerConfigure New d tfVersion calls)) \<or> n = 3))
   \<and> WebServiceURL (config_for d v) = web_service_url d
   \<and> Token (config_for d v) = token d
   \<and> TLSTrustCertsFilePath (config_for d v) = tls_trust_certs_file_path d
   \<and> TLSAllowInsecureConnection (config_for d v) = tls_allow_insecure_connection d
   \<and> PulsarAPIVersion (config_for d v) = v
   \<and> config_for d v = (config_for d w)\<lparr>PulsarAPIVersion := v\<rparr>"
proof -
  let ?fails = "\<lambda>v. isl (New (config_for d v))"
  obtain n where n: "n \<le> length [V1, V2, V3]" "[V1, V2, V3] \<noteq> [] \<longrightarrow> 1 \<le> n"
      "attempted ?fails [V1, V2, V3] = take n [V1, V2, V3]"
      "list_ex ?fails [V1, V2, V3] \<or> n = length [V1, V2, V3]"
    using attempted_take [of "[V1, V2, V3]" ?fails] by blast
  have new: "new_calls calls (providerConfigure New d tfVersion calls) =
               map (config_for d) (take n [V1, V2, V3])"
    by (simp only: new_calls_def providerConfigure_calls n(3)) simp
  have vers: "map PulsarAPIVersion (map (config_for d) vs) = vs" for vs
    by (induction vs) (simp_all add: config_for_def)
  have failed: "isl (fst (providerConfigure New d tfVersion calls))" if "list_ex ?fails [V1, V2, V3]"
  proof -
    from that obtain f where "find ?fails [V1, V2, V3] = Some f"
      by (cases "find ?fails [V1, V2, V3]") (auto simp add: find_None_iff list_ex_iff simp del: find.simps)
    then show ?thesis unfolding providerConfigure_result by simp
  qed
  have "1 \<le> n \<and> n \<le> 3
        \<and> new_calls calls (providerConfigure New d tfVersion calls) =
            map (config_for d) (take n [V1, V2, V3])
        \<and> map PulsarAPIVersion (new_calls calls (providerConfigure New d tfVersion calls)) =
            take n [V1, V2, V3]
        \<and> (isl (fst (providerConfigure New d tfVersion calls)) \<or> n = 3)"
    using n(1,2,4) failed by (auto simp only: new vers) simp_all
  then show ?thesis by (auto simp add: config_for_def)
qed

text \<open>
  The three configurations built for the example resource data.
\<close>

theorem constructions_in_order_with_same_connection_witness:
  "new_calls [] (providerConfigure New_ok example_d ''1.5.0'' []) =
     [\<lparr>WebServiceURL = ''https://pulsar.example.com:8080'', Token = '''', PulsarAPIVersion = V1,
       TLSTrustCertsFilePath = '''', TLSAllowInsecureConnection = False\<rparr>,
      \<lparr>WebServiceURL = ''https://pulsar.example.com:8080'', Token = '''', PulsarAPIVersion = V2,
       TLSTrustCertsFilePath = '''', TLSAllowInsecureConnection = False\<rparr>,
      \<lparr>WebServiceURL = ''https://pulsar.example.com:8080'', Token = '''', PulsarAPIVersion = V3,
       TLSTrustCertsFilePath = '''', TLSAllowInsecureConnection = False\<rparr>]
   \<and> map PulsarAPIVersion (new_calls [] (providerConfigure New_ok example_d ''1.5.0'' [])) = [V1, V2, V3]"
proof -
  have ok: "\<not> isl (fst (providerConfigure New_ok example_d ''1.5.0'' []))"
    by (simp add: providerConfigure_def New_ok_def Let_def)
  from constructions_in_order_with_same_connection [where New = New_ok and d = example_d
      and tfVersion = "''1.5.0''" and calls = "[]" and v = V1 and w = V1]
  obtain n where n: "new_calls [] (providerConfigure New_ok example_d ''1.5.0'' []) =
            map (config_for example_d) (take n [V1, V2, V3])"
      "map PulsarAPIVersion (new_calls [] (providerConfigure New_ok example_d ''1.5.0'' [])) =
            take n [V1, V2, V3]"
      "isl (fst (providerConfigure New_ok example_d ''1.5.0'' [])) \<or> n = 3"
    by blast
  from n(3) ok have "n = 3" by simp
  with n(1,2) show ?thesis by (simp add: config_for_def example_d_def)
qed

text \<open>
  Claim C6, as amended. An error returned by \<open>providerConfigure\<close> is the error of a failed
  construction wrapped by \<open>fmt.Errorf\<close> with the fixed text
  \<open>failed to create pulsar client: \<close> in front: \<open>Unwrap\<close> gives the cause back, and the
  message is that text followed by the message of the cause. The context added is the
  same whichever version failed.
\<close>

theorem failure_wraps_cause_with_fixed_context:
  assumes "fst (providerConfigure New d tfVersion calls) = Inl err"
  shows "\<exists>f cause. New (config_for d f) = Inl cause
           \<and> err = Errorf ''failed to create pulsar client: '' cause
           \<and> Unwrap err = Some cause
           \<and> Error_msg err = ''failed to create pulsar client: '' @ Error_msg cause"
proof -
  let ?fails = "\<lambda>v. isl (New (config_for d v))"
  obtain f where f: "find ?fails [V1, V2, V3] = Some f"
    using assms unfolding providerConfigure_result
    by (cases "find ?fails [V1, V2, V3]") (simp_all del: find.simps)
  then have "?fails f" unfolding find_Some_iff by blast
  then obtain cause where cause: "New (config_for d f) = Inl cause"
    by (cases "New (config_for d f)") simp_all
  have "err = Errorf ''failed to create pulsar client: '' cause"
    using assms unfolding providerConfigure_result f by (simp add: cause)
  with cause show ?thesis by auto
qed

text \<open>
  The error of a pass whose third construction fails.
\<close>

theorem failure_wraps_cause_with_fixed_context_witness:
  "fst (providerConfigure (New_failing_at V3) example_d ''1.5.0'' []) =
     Inl (Errorf ''failed to create pulsar client: '' (Cause ''connection refused''))
   \<and> (\<exists>f cause. New_failing_at V3 (config_for example_d f) = Inl cause
         \<and> Unwrap (Errorf ''failed to create pulsar client: '' (Cause ''connection refused'')) = Some cause
         \<and> Error_msg (Errorf ''failed to create pulsar client: '' (Cause ''connection refused'')) =
             ''failed to create pulsar client: '' @ Error_msg cause)"
proof -
  have run: "fst (providerConfigure (New_failing_at V3) example_d ''1.5.0'' []) =
     Inl (Errorf ''failed to create pulsar client: '' (Cause ''connection refused''))"
    by (simp add: providerConfigure_def New_failing_at_def Let_def)
  from failure_wraps_cause_with_fixed_context [where New = "New_failing_at V3" and d = example_d
      and tfVersion = "''1.5.0''" and calls = "[]", OF run] run
  show ?thesis by blast
qed

text \<open>
  Claim C6 as stated fails: a constructor failing for \<open>V1\<close>, one failing for \<open>V2\<close> and
  one failing for \<open>V3\<close>, each with the same cause, make \<open>providerConfigure\<close> return one
  and the same error, which therefore does not tell which version failed.
\<close>

theorem failing_version_not_in_error:
  "fst (providerConfigure (New_failing_at V1) example_d ''1.5.0'' []) =
     Inl (Errorf ''failed to create pulsar client: '' (Cause ''connection refused''))
   \<and> fst (providerConfigure (New_failing_at V2) example_d ''1.5.0'' []) =
     Inl (Errorf ''failed to create pulsar client: '' (Cause ''connection refused''))
   \<and> fst (providerConfigure (New_failing_at V3) example_d ''1.5.0'' []) =
     Inl (Errorf ''failed to create pulsar client: '' (Cause ''connection refused''))"
  by (simp add: providerConfigure_def New_failing_at_def Let_def)

section \<open>Repeated invocations and ignored inputs\<close>

text \<open>
  Claim C8. When the configure callback succeeds, started with the record of constructor
  invocations \<open>before\<close>, it has invoked \<open>pulsar.New\<close> once for each of the three
  versions; a second invocation with the same input, started where the first ended,
  invokes the constructor three times again with the same three configurations and
  returns the same registry; every entry of the registry is the client the constructor
  returned for that version's configuration; and the result does not depend on what was
  constructed before: from any record of earlier invocations the callback returns this
  registry and appends these three invocations.
\<close>

theorem independent_invocations_equivalent:
  assumes "ConfigureContextFunc Parse New TerraformVersion d before = ((Some meta, diags), after)"
  shows "after = before @ map (config_for d) [V1, V2, V3]
       \<and> ConfigureContextFunc Parse New TerraformVersion d after =
           ((Some meta, []), after @ map (config_for d) [V1, V2, V3])
       \<and> (\<forall>v. \<exists>client. meta v = Some client \<and> New (config_for d v) = Inr client)
       \<and> (\<forall>calls. ConfigureContextFunc Parse New TerraformVersion d calls =
                     ((Some meta, []), calls @ map (config_for d) [V1, V2, V3]))"
proof -
  let ?tf = "if TerraformVersion = '''' then ''0.11+compatible'' else TerraformVersion"
  have valid: "Parse (web_service_url d) = None"
    using assms
    by (cases "Parse (web_service_url d)")
      (simp_all add: ConfigureContextFunc_def validatePulsarConfig_def)
  have ccf: "ConfigureContextFunc Parse New TerraformVersion d calls =
           (case providerConfigure New d ?tf calls of
              (Inl err, calls') \<Rightarrow> ((None, FromErr err), calls')
            | (Inr output, calls') \<Rightarrow> ((Some output, []), calls'))" for calls
    by (rule ConfigureContextFunc_valid [where Parse = Parse and d = d, OF valid])
  have ok: "fst (providerConfigure New d ?tf before) = Inr meta"
    using assms unfolding ccf
    by (cases "providerConfigure New d ?tf before"; cases "fst (providerConfigure New d ?tf before)")
      auto
  have any: "fst (providerConfigure New d ?tf calls) = Inr meta" for calls
    using ok unfolding providerConfigure_result .
  have run: "providerConfigure New d ?tf calls = (Inr meta, calls @ map (config_for d) [V1, V2, V3])"
    for calls
    using any [of calls] providerConfigure_success(2) [where New = New and d = d
        and tfVersion = ?tf and calls = calls and meta = meta, OF any]
    by (cases "providerConfigure New d ?tf calls") simp
  have all: "ConfigureContextFunc Parse New TerraformVersion d calls =
                     ((Some meta, []), calls @ map (config_for d) [V1, V2, V3])" for calls
    unfolding ccf run by simp
  have first: "after = before @ map (config_for d) [V1, V2, V3]"
    using assms unfolding all by simp
  note bound = providerConfigure_success(1) [where New = New and d = d
        and tfVersion = ?tf and calls = before and meta = meta, OF ok]
  have each: "\<forall>v. \<exists>client. meta v = Some client \<and> New (config_for d v) = Inr client"
    using bound by blast
  from first all each show ?thesis by blast
qed

text \<open>
  Two invocations in a row on the example resource data.
\<close>

theorem independent_invocations_equivalent_witness:
  "ConfigureContextFunc Parse_http_only New_ok ''1.5.0'' example_d [] =
     ((Some [V1 \<mapsto> config_for example_d V1, V2 \<mapsto> config_for example_d V2,
             V3 \<mapsto> config_for example_d V3], []),
      [config_for example_d V1, config_for example_d V2, config_for example_d V3])
   \<and> ConfigureContextFunc Parse_http_only New_ok ''1.5.0'' example_d
       [config_for example_d V1, config_for example_d V2, config_for example_d V3] =
     ((Some [V1 \<mapsto> config_for example_d V1, V2 \<mapsto> config_for example_d V2,
             V3 \<mapsto> config_for example_d V3], []),
      [config_for example_d V1, config_for example_d V2, config_for example_d V3,
       config_for example_d V1, config_for example_d V2, config_for example_d V3])"
proof -
  let ?meta = "[V1 \<mapsto> config_for example_d V1, V2 \<mapsto> config_for example_d V2,
                V3 \<mapsto> config_for example_d V3]"
  let ?cs = "[config_for example_d V1, config_for example_d V2, config_for example_d V3]"
  have first: "ConfigureContextFunc Parse_http_only New_ok ''1.5.0'' example_d [] =
     ((Some ?meta, []), ?cs)"
    by (simp add: ConfigureContextFunc_def validatePulsarConfig_def Parse_http_only_def
        providerConfigure_def New_ok_def config_for_def Let_def example_d_def)
  from independent_invocations_equivalent [where Parse = Parse_http_only and New = New_ok
      and TerraformVersion = "''1.5.0''" and d = example_d and before = "[]"
      and meta = ?meta and diags = "[]" and after = ?cs, OF first]
  have "ConfigureContextFunc Parse_http_only New_ok ''1.5.0'' example_d ?cs =
           ((Some ?meta, []), ?cs @ map (config_for example_d) [V1, V2, V3])"
    by (elim conjE)
  with first show ?thesis by simp
qed

text \<open>
  Claim C9. Two resource data that agree on the endpoint, the token, the trust path and
  the insecure flag (so differ at most in \<open>api_version\<close>) give the same validation
  result, the same result of \<open>providerConfigure\<close> and the same result of the configure
  callback, whatever the two Terraform version strings are.
\<close>

theorem api_version_and_tfVersion_are_ignored:
  assumes "web_service_url d' = web_service_url d"
    and "token d' = token d"
    and "tls_trust_certs_file_path d' = tls_trust_certs_file_path d"
    and "tls_allow_insecure_connection d' = tls_allow_insecure_connection d"
  shows "validatePulsarConfig Parse d' = validatePulsarConfig Parse d
       \<and> providerConfigure New d' tfVersion' calls = providerConfigure New d tfVersion calls
       \<and> ConfigureContextFunc Parse New TerraformVersion' d' calls =
           ConfigureContextFunc Parse New TerraformVersion d calls"
proof -
  have validate: "validatePulsarConfig Parse d' = validatePulsarConfig Parse d"
    using assms(1) by (simp add: validatePulsarConfig_def)
  have pass: "providerConfigure New d' tf' calls = providerConfigure New d tf calls" for tf tf'
    using assms by (simp add: providerConfigure_def)
  have callback: "ConfigureContextFunc Parse New TerraformVersion' d' calls =
           ConfigureContextFunc Parse New TerraformVersion d calls"
    unfolding ConfigureContextFunc_def validate Let_def
    by (cases "validatePulsarConfig Parse d")
      (simp_all add: pass [where tf = "if TerraformVersion = [] then ''0.11+compatible'' else TerraformVersion"])
  from validate pass callback show ?thesis by (intro conjI)
qed

text \<open>
  The example resource data with \<open>api_version\<close> changed from 1 to 3, and different
  Terraform versions.
\<close>

theorem api_version_and_tfVersion_are_ignored_witness:
  "web_service_url (example_d\<lparr>api_version := ''3''\<rparr>) = web_service_url example_d
   \<and> api_version (example_d\<lparr>api_version := ''3''\<rparr>) \<noteq> api_version example_d
   \<and> providerConfigure New_ok (example_d\<lparr>api_version := ''3''\<rparr>) ''0.11+compatible'' [] =
       providerConfigure New_ok example_d ''1.5.0'' []
   \<and> ConfigureContextFunc Parse_http_only (New_failing_at V2) '''' (example_d\<lparr>api_version := ''3''\<rparr>) [] =
       ConfigureContextFunc Parse_http_only (New_failing_at V2) ''1.5.0'' example_d []"
proof -
  have same: "web_service_url (example_d\<lparr>api_version := ''3''\<rparr>) = web_service_url example_d"
    "token (example_d\<lparr>api_version := ''3''\<rparr>) = token example_d"
    "tls_trust_certs_file_path (example_d\<lparr>api_version := ''3''\<rparr>) = tls_trust_certs_file_path example_d"
    "tls_allow_insecure_connection (example_d\<lparr>api_version := ''3''\<rparr>) =
       tls_allow_insecure_connection example_d"
    by simp_all
  have differ: "api_version (example_d\<lparr>api_version := ''3''\<rparr>) \<noteq> api_version example_d"
    by (simp add: example_d_def)
  from api_version_and_tfVersion_are_ignored [where d' = "example_d\<lparr>api_version := ''3''\<rparr>"
      and d = example_d and New = New_ok and tfVersion' = "''0.11+compatible''"
      and tfVersion = "''1.5.0''" and calls = "[]" and Parse = Parse_http_only
      and TerraformVersion' = "''''" and TerraformVersion = "''1.5.0''", OF same]
  have one: "providerConfigure New_ok (example_d\<lparr>api_version := ''3''\<rparr>) ''0.11+compatible'' [] =
       providerConfigure New_ok example_d ''1.5.0'' []"
    by (elim conjE)
  from api_version_and_tfVersion_are_ignored [where d' = "example_d\<lparr>api_version := ''3''\<rparr>"
      and d = example_d and New = "New_failing_at V2" and Parse = Parse_http_only
      and TerraformVersion' = "''''" and TerraformVersion = "''1.5.0''" and calls = "[]"
      and tfVersion' = "''''" and tfVersion = "''''", OF same]
  have two: "ConfigureContextFunc Parse_http_only (New_failing_at V2) '''' (example_d\<lparr>api_version := ''3''\<rparr>) [] =
       ConfigureContextFunc Parse_http_only (New_failing_at V2) ''1.5.0'' example_d []"
    by (elim conjE)
  from same(1) differ one two show ?thesis by (intro conjI)
qed


section \<open>Endpoints that url.Parse accepts\<close>

lemma first_call_is_V1:
  "\<exists>rest. new_calls calls (providerConfigure New d tfVersion calls) = config_for d V1 # rest"
  by (simp add: new_calls_def providerConfigure_calls)

lemma ConfigureContextFunc_valid_calls:
  assumes "Parse (web_service_url d) = None"
  shows "snd (ConfigureContextFunc Parse New TerraformVersion d calls) =
           snd (providerConfigure New d tfVersion calls)"
    and "fst (ConfigureContextFunc Parse New TerraformVersion d calls) =
           (case fst (providerConfigure New d tfVersion calls) of
              Inl err \<Rightarrow> (None, FromErr err)
            | Inr output \<Rightarrow> (Some output, []))"
  unfolding ConfigureContextFunc_valid [where Parse = Parse and d = d and tfVersion = tfVersion,
      OF assms]
  by (cases "providerConfigure New d tfVersion calls";
      cases "fst (providerConfigure New d tfVersion calls)"; simp)+

lemma url_Parse_not_a_url: "url_Parse ''not a url'' = None"
  by code_simp

lemma url_Parse_colon_first: "url_Parse '':not a url'' = Some (Cause ''missing protocol scheme'')"
  by code_simp

lemma url_Parse_empty: "url_Parse '''' = None"
  by code_simp

text \<open>
  Claim C4, as amended. For the endpoint \<open>not a url\<close>, \<open>url.Parse\<close> reports no error
  (the string is a relative reference whose path is \<open>not a url\<close>), so validation
  passes, the configure callback goes on to construct clients, beginning with the
  version \<open>V1\<close> and this endpoint, and whatever it returns is not the invalid-endpoint
  error. An endpoint that \<open>url.Parse\<close> rejects, such as \<open>:not a url\<close> with its missing
  scheme, gives the invalid-endpoint error with no construction attempted.
\<close>

theorem not_a_url_is_accepted:
  assumes "web_service_url d = ''not a url''" and "web_service_url d' = '':not a url''"
  shows "validatePulsarConfig url_Parse d = None
       \<and> (\<exists>rest. new_calls calls (ConfigureContextFunc url_Parse New TerraformVersion d calls) =
                    config_for d V1 # rest)
       \<and> WebServiceURL (config_for d V1) = ''not a url''
       \<and> (\<forall>err. fst (ConfigureContextFunc url_Parse New TerraformVersion d calls) \<noteq>
                   (None, FromErr (Errorf ''ERROR_PULSAR_CONFIG_INVALID_WEB_SERVICE_URL: '' err)))
       \<and> ConfigureContextFunc url_Parse New TerraformVersion d' calls =
           ((None, FromErr (Errorf ''ERROR_PULSAR_CONFIG_INVALID_WEB_SERVICE_URL: ''
                              (Cause ''missing protocol scheme''))), calls)"
proof -
  have ok: "url_Parse (web_service_url d) = None"
    by (simp only: assms(1) url_Parse_not_a_url)
  have bad: "url_Parse (web_service_url d') = Some (Cause ''missing protocol scheme'')"
    by (simp only: assms(2) url_Parse_colon_first)
  have validate: "validatePulsarConfig url_Parse d = None"
    by (simp add: validatePulsarConfig_def ok)
  have calls: "\<exists>rest. new_calls calls (ConfigureContextFunc url_Parse New TerraformVersion d calls) =
                    config_for d V1 # rest"
    using first_call_is_V1 [of calls New d TerraformVersion]
    by (simp add: new_calls_def
        ConfigureContextFunc_valid_calls(1) [where Parse = url_Parse and d = d
          and tfVersion = TerraformVersion, OF ok])
  have endpoint: "WebServiceURL (config_for d V1) = ''not a url''"
    by (simp add: config_for_def assms(1))
  have other: "\<forall>err. fst (ConfigureContextFunc url_Parse New TerraformVersion d calls) \<noteq>
                   (None, FromErr (Errorf ''ERROR_PULSAR_CONFIG_INVALID_WEB_SERVICE_URL: '' err))"
    unfolding ConfigureContextFunc_valid_calls(2) [where Parse = url_Parse and d = d
          and tfVersion = TerraformVersion, OF ok] providerConfigure_result
    by (simp add: FromErr_def split: option.splits sum.splits del: find.simps)
  note rejected = ConfigureContextFunc_invalid [where Parse = url_Parse and d = d', OF bad]
  from validate calls endpoint other rejected show ?thesis by (intro conjI)
qed

text \<open>
  Both endpoints in the example resource data.
\<close>

theorem not_a_url_is_accepted_witness:
  "web_service_url (example_d\<lparr>web_service_url := ''not a url''\<rparr>) = ''not a url''
   \<and> web_service_url (example_d\<lparr>web_service_url := '':not a url''\<rparr>) = '':not a url''
   \<and> validatePulsarConfig url_Parse (example_d\<lparr>web_service_url := ''not a url''\<rparr>) = None
   \<and> ConfigureContextFunc url_Parse New_ok ''1.5.0''
         (example_d\<lparr>web_service_url := '':not a url''\<rparr>) [] =
       ((None, FromErr (Errorf ''ERROR_PULSAR_CONFIG_INVALID_WEB_SERVICE_URL: ''
                          (Cause ''missing protocol scheme''))), [])"
proof -
  have one: "web_service_url (example_d\<lparr>web_service_url := ''not a url''\<rparr>) = ''not a url''"
    and two: "web_service_url (example_d\<lparr>web_service_url := '':not a url''\<rparr>) = '':not a url''"
    by simp_all
  note inst = not_a_url_is_accepted [where d = "example_d\<lparr>web_service_url := ''not a url''\<rparr>"
      and d' = "example_d\<lparr>web_service_url := '':not a url''\<rparr>" and New = New_ok
      and TerraformVersion = "''1.5.0''" and calls = "[]", OF one two]
  have three: "validatePulsarConfig url_Parse (example_d\<lparr>web_service_url := ''not a url''\<rparr>) = None"
    by (rule inst [THEN conjunct1])
  have four: "ConfigureContextFunc url_Parse New_ok ''1.5.0''
         (example_d\<lparr>web_service_url := '':not a url''\<rparr>) [] =
       ((None, FromErr (Errorf ''ERROR_PULSAR_CONFIG_INVALID_WEB_SERVICE_URL: ''
                          (Cause ''missing protocol scheme''))), [])"
    by (rule inst [THEN conjunct2, THEN conjunct2, THEN conjunct2, THEN conjunct2])
  from one two three four show ?thesis by (intro conjI)
qed

text \<open>
  Claim C4 as stated fails: with the endpoint \<open>not a url\<close> and a constructor that
  succeeds, validation passes, the callback returns a registry and no diagnostic, and
  three clients are constructed for that endpoint.
\<close>

theorem not_a_url_constructs_clients:
  "validatePulsarConfig url_Parse (example_d\<lparr>web_service_url := ''not a url''\<rparr>) = None
   \<and> snd (fst (ConfigureContextFunc url_Parse New_ok ''1.5.0''
                 (example_d\<lparr>web_service_url := ''not a url''\<rparr>) [])) = []
   \<and> fst (fst (ConfigureContextFunc url_Parse New_ok ''1.5.0''
                 (example_d\<lparr>web_service_url := ''not a url''\<rparr>) [])) \<noteq> None
   \<and> map WebServiceURL (snd (ConfigureContextFunc url_Parse New_ok ''1.5.0''
                 (example_d\<lparr>web_service_url := ''not a url''\<rparr>) [])) =
       [''not a url'', ''not a url'', ''not a url'']"
  by (simp add: ConfigureContextFunc_def validatePulsarConfig_def url_Parse_not_a_url
      providerConfigure_def New_ok_def Let_def)

text \<open>
  Claim C10. \<open>url.Parse\<close> accepts the empty string, and \<open>validatePulsarConfig\<close> returns
  \<open>nil\<close> for every endpoint the parser accepts. So for resource data whose
  \<open>web_service_url\<close> reads as the empty string (what \<open>d.Get\<close> gives for an empty and
  for an unset value alike) validation passes and the configure callback invokes
  \<open>pulsar.New\<close>, first for \<open>V1\<close>, with an empty \<open>WebServiceURL\<close>.
\<close>

theorem empty_endpoint_passes_validation:
  assumes "web_service_url d = ''''"
  shows "url_Parse '''' = None
       \<and> validatePulsarConfig url_Parse d = None
       \<and> (\<exists>rest. new_calls calls (ConfigureContextFunc url_Parse New TerraformVersion d calls) =
             \<lparr>WebServiceURL = '''', Token = token d, PulsarAPIVersion = V1,
               TLSTrustCertsFilePath = tls_trust_certs_file_path d,
               TLSAllowInsecureConnection = tls_allow_insecure_connection d\<rparr> # rest)
       \<and> (\<forall>Parse e. Parse (web_service_url e) = None \<longrightarrow> validatePulsarConfig Parse e = None)"
proof -
  have ok: "url_Parse (web_service_url d) = None"
    by (simp only: assms url_Parse_empty)
  have validate: "validatePulsarConfig url_Parse d = None"
    by (simp add: validatePulsarConfig_def ok)
  have "\<exists>rest. new_calls calls (ConfigureContextFunc url_Parse New TerraformVersion d calls) =
                    config_for d V1 # rest"
    using first_call_is_V1 [of calls New d TerraformVersion]
    by (simp add: new_calls_def
        ConfigureContextFunc_valid_calls(1) [where Parse = url_Parse and d = d
          and tfVersion = TerraformVersion, OF ok])
  then have calls: "\<exists>rest. new_calls calls (ConfigureContextFunc url_Parse New TerraformVersion d calls) =
             \<lparr>WebServiceURL = '''', Token = token d, PulsarAPIVersion = V1,
               TLSTrustCertsFilePath = tls_trust_certs_file_path d,
               TLSAllowInsecureConnection = tls_allow_insecure_connection d\<rparr> # rest"
    by (simp add: config_for_def assms)
  have general: "\<forall>Parse e. Parse (web_service_url e) = None \<longrightarrow> validatePulsarConfig Parse e = None"
    by (simp add: validatePulsarConfig_def)
  from url_Parse_empty validate calls general show ?thesis by (intro conjI)
qed

text \<open>
  The example resource data with an empty endpoint.
\<close>

theorem empty_endpoint_passes_validation_witness:
  "web_service_url (example_d\<lparr>web_service_url := ''''\<rparr>) = ''''
   \<and> validatePulsarConfig url_Parse (example_d\<lparr>web_service_url := ''''\<rparr>) = None
   \<and> new_calls [] (ConfigureContextFunc url_Parse New_ok ''1.5.0''
                     (example_d\<lparr>web_service_url := ''''\<rparr>) []) \<noteq> []"
proof -
  have empty: "web_service_url (example_d\<lparr>web_service_url := ''''\<rparr>) = ''''"
    by simp
  note inst = empty_endpoint_passes_validation [where d = "example_d\<lparr>web_service_url := ''''\<rparr>"
      and New = New_ok and TerraformVersion = "''1.5.0''" and calls = "[]", OF empty]
  have validate: "validatePulsarConfig url_Parse (example_d\<lparr>web_service_url := ''''\<rparr>) = None"
    by (rule inst [THEN conjunct2, THEN conjunct1])
  have "new_calls [] (ConfigureContextFunc url_Parse New_ok ''1.5.0''
                     (example_d\<lparr>web_service_url := ''''\<rparr>) []) \<noteq> []"
    using inst [THEN conjunct2, THEN conjunct2, THEN conjunct1] by auto
  with empty validate show ?thesis by (intro conjI)
qed

section \<open>Defaults of the optional keys\<close>

lemma resourceData_defaults:
  assumes "raw_token raw = None"
    and "raw_tls_trust_certs_file_path raw = None"
    and "raw_tls_allow_insecure_connection raw = None"
    and "getenv ''PULSAR_AUTH_TOKEN'' = ''''"
    and "getenv ''TLS_TRUST_CERTS_FILE_PATH'' = ''''"
    and "getenv ''TLS_ALLOW_INSECURE_CONNECTION'' = ''''"
  shows "\<exists>d. resourceData toBool getenv raw = Inr d \<and> token d = ''''
            \<and> tls_trust_certs_file_path d = '''' \<and> \<not> tls_allow_insecure_connection d"
  using assms
  by (simp add: resourceData_def GetBool_def GetString_def schema_token_def
      schema_tls_trust_certs_file_path_def schema_tls_allow_insecure_connection_def)

text \<open>
  Claim C7, as amended. When the provider block supplies neither \<open>token\<close> nor
  \<open>tls_trust_certs_file_path\<close> nor \<open>tls_allow_insecure_connection\<close>, and the environment
  variables \<open>PULSAR_AUTH_TOKEN\<close>, \<open>TLS_TRUST_CERTS_FILE_PATH\<close> and
  \<open>TLS_ALLOW_INSECURE_CONNECTION\<close> are unset or empty, the resource data has an empty
  token, an empty trust path and the insecure flag false, and so has every configuration
  handed to \<open>pulsar.New\<close>.
\<close>

theorem omitted_optional_fields_default_without_environment:
  assumes "raw_token raw = None"
    and "raw_tls_trust_certs_file_path raw = None"
    and "raw_tls_allow_insecure_connection raw = None"
    and "getenv ''PULSAR_AUTH_TOKEN'' = ''''"
    and "getenv ''TLS_TRUST_CERTS_FILE_PATH'' = ''''"
    and "getenv ''TLS_ALLOW_INSECURE_CONNECTION'' = ''''"
  shows "\<exists>d. resourceData toBool getenv raw = Inr d
            \<and> token d = '''' \<and> tls_trust_certs_file_path d = ''''
            \<and> \<not> tls_allow_insecure_connection d
            \<and> (\<forall>config \<in> set (new_calls calls (providerConfigure New d tfVersion calls)).
                  Token config = '''' \<and> TLSTrustCertsFilePath config = ''''
                  \<and> \<not> TLSAllowInsecureConnection config)"
proof -
  obtain d where d: "resourceData toBool getenv raw = Inr d" "token d = ''''"
      "tls_trust_certs_file_path d = ''''" "\<not> tls_allow_insecure_connection d"
    using resourceData_defaults [OF assms] by blast
  have "\<forall>config \<in> set (new_calls calls (providerConfigure New d tfVersion calls)).
                  Token config = '''' \<and> TLSTrustCertsFilePath config = ''''
                  \<and> \<not> TLSAllowInsecureConnection config"
    using d(2-4) by (auto simp add: new_calls_def providerConfigure_calls config_for_def)
  with d show ?thesis by blast
qed

text \<open>
  A provider block with the endpoint only, in the empty environment.
\<close>

theorem omitted_optional_fields_default_without_environment_witness:
  "raw_token raw_endpoint_only = None
   \<and> getenv_empty ''PULSAR_AUTH_TOKEN'' = ''''
   \<and> resourceData ParseBool getenv_empty raw_endpoint_only =
       Inr \<lparr>web_service_url = ''https://pulsar.example.com:8080'', token = '''', api_version = ''1'',
            tls_trust_certs_file_path = '''', tls_allow_insecure_connection = False\<rparr>
   \<and> (\<exists>d. resourceData ParseBool getenv_empty raw_endpoint_only = Inr d
            \<and> token d = '''' \<and> tls_trust_certs_file_path d = ''''
            \<and> \<not> tls_allow_insecure_connection d
            \<and> list_all (\<lambda>config. Token config = '''' \<and> TLSTrustCertsFilePath config = ''''
                                    \<and> \<not> TLSAllowInsecureConnection config)
                 (new_calls [] (providerConfigure New_ok d ''1.5.0'' [])))"
proof -
  have raw: "raw_token raw_endpoint_only = None"
    "raw_tls_trust_certs_file_path raw_endpoint_only = None"
    "raw_tls_allow_insecure_connection raw_endpoint_only = None"
    by (simp_all add: raw_endpoint_only_def)
  have env: "getenv_empty ''PULSAR_AUTH_TOKEN'' = ''''"
    "getenv_empty ''TLS_TRUST_CERTS_FILE_PATH'' = ''''"
    "getenv_empty ''TLS_ALLOW_INSECURE_CONNECTION'' = ''''"
    by (simp_all add: getenv_empty_def)
  have run: "resourceData ParseBool getenv_empty raw_endpoint_only =
       Inr \<lparr>web_service_url = ''https://pulsar.example.com:8080'', token = '''', api_version = ''1'',
            tls_trust_certs_file_path = '''', tls_allow_insecure_connection = False\<rparr>"
    by (simp add: resourceData_def GetBool_def GetString_def raw_endpoint_only_def getenv_empty_def
        schema_web_service_url_def schema_token_def schema_api_version_def
        schema_tls_trust_certs_file_path_def schema_tls_allow_insecure_connection_def)
  from omitted_optional_fields_default_without_environment [where raw = raw_endpoint_only
      and getenv = getenv_empty and toBool = ParseBool and New = New_ok
      and tfVersion = "''1.5.0''" and calls = "[]", OF raw env]
  have "\<exists>d. resourceData ParseBool getenv_empty raw_endpoint_only = Inr d
            \<and> token d = '''' \<and> tls_trust_certs_file_path d = ''''
            \<and> \<not> tls_allow_insecure_connection d
            \<and> list_all (\<lambda>config. Token config = '''' \<and> TLSTrustCertsFilePath config = ''''
                                    \<and> \<not> TLSAllowInsecureConnection config)
                 (new_calls [] (providerConfigure New_ok d ''1.5.0'' []))"
    unfolding list_all_iff .
  with raw(1) env(1) run show ?thesis by (intro conjI)
qed

text \<open>
  Claim C7 as stated fails: the same provider block, with the three optional keys not
  supplied, in an environment that sets \<open>PULSAR_AUTH_TOKEN\<close>, yields resource data whose
  token is the value of the variable, and the three configurations constructed carry it.
\<close>

theorem omitted_token_taken_from_environment:
  "raw_token raw_endpoint_only = None
   \<and> raw_tls_trust_certs_file_path raw_endpoint_only = None
   \<and> raw_tls_allow_insecure_connection raw_endpoint_only = None
   \<and> resourceData ParseBool getenv_token raw_endpoint_only =
       Inr \<lparr>web_service_url = ''https://pulsar.example.com:8080'', token = ''s3cr3t'',
            api_version = ''1'', tls_trust_certs_file_path = '''',
            tls_allow_insecure_connection = False\<rparr>
   \<and> map Token (new_calls []
        (providerConfigure New_ok
           \<lparr>web_service_url = ''https://pulsar.example.com:8080'', token = ''s3cr3t'',
            api_version = ''1'', tls_trust_certs_file_path = '''',
            tls_allow_insecure_connection = False\<rparr> ''1.5.0'' [])) =
       [''s3cr3t'', ''s3cr3t'', ''s3cr3t'']"
  by (simp add: resourceData_def GetBool_def GetString_def raw_endpoint_only_def getenv_token_def
      schema_web_service_url_def schema_token_def schema_api_version_def
      schema_tls_trust_certs_file_path_def schema_tls_allow_insecure_connection_def
      new_calls_def providerConfigure_def New_ok_def Let_def)

end
